theory Spec2Isabelle
  imports Main
begin

section \<open>The environment of the script\<close>

text \<open>
  The script \<^verbatim>\<open>Crowd/m.py\<close> touches three things outside itself: the file system
  (through \<^verbatim>\<open>os.makedirs\<close>, \<^verbatim>\<open>os.path.exists\<close> and \<^verbatim>\<open>os.rename\<close>), the console
  (through \<^verbatim>\<open>print\<close>) and the model library (\<^verbatim>\<open>YOLO(...)\<close> and \<^verbatim>\<open>model.export(...)\<close>).
  The file system and the console are modelled as state; the library is a parameter of
  the model, an arbitrary pair of functions that may change the file system and may raise.
\<close>

subsection \<open>Exceptions\<close>

text \<open>
  Exceptions are values. An \<open>OSError\<close> carries the error number and the one or two file
  names it was raised for; \<open>Error\<close> stands for any other instance of Python's
  \<^verbatim>\<open>Exception\<close>, with the text that \<^verbatim>\<open>str(e)\<close> gives.
\<close>

type_synonym path = string

datatype errno =
  EPERM | ENOENT | EACCES | EEXIST | ENOTDIR | EISDIR | EINVAL | ENOSPC | ENOTEMPTY

datatype exn = OSError errno path "path option" | Error string

fun strerror :: "errno \<Rightarrow> string" where
  "strerror EPERM = ''[Errno 1] Operation not permitted''"
| "strerror ENOENT = ''[Errno 2] No such file or directory''"
| "strerror EACCES = ''[Errno 13] Permission denied''"
| "strerror EEXIST = ''[Errno 17] File exists''"
| "strerror ENOTDIR = ''[Errno 20] Not a directory''"
| "strerror EISDIR = ''[Errno 21] Is a directory''"
| "strerror EINVAL = ''[Errno 22] Invalid argument''"
| "strerror ENOSPC = ''[Errno 28] No space left on device''"
| "strerror ENOTEMPTY = ''[Errno 39] Directory not empty''"

definition repr :: "path \<Rightarrow> string" where
  "repr p = [CHR 0x27] @ p @ [CHR 0x27]"

fun str :: "exn \<Rightarrow> string" where
  "str (OSError n p None) = strerror n @ '': '' @ repr p"
| "str (OSError n p (Some q)) = strerror n @ '': '' @ repr p @ '' -> '' @ repr q"
| "str (Error s) = s"

subsection \<open>File system, console and the record of library calls\<close>

text \<open>
  A file system maps a path, relative to the working directory and written as the script
  writes it, to a regular file with its content or to a directory. The rules are those of
  POSIX. Beyond them the operating system may refuse a call (permission denied, disk
  full, or a platform that does not rename onto an existing file): \<open>faults\<close> gives, for a
  call, the error raised instead of performing it.
\<close>

datatype node = File string | Dir

type_synonym filesystem = "path \<Rightarrow> node option"

datatype syscall = Mkdir path | Rename path path

datatype 'm call = Load string | Export 'm string "int list"

record 'm world =
  fs :: filesystem
  console :: "string list"
  calls :: "'m call list"
  faults :: "syscall \<Rightarrow> exn option"

text \<open>
  The library: \<open>YOLO\<close> is the loader (\<^verbatim>\<open>YOLO(identifier)\<close>, giving a model object of type
  \<open>'m\<close>), \<open>export\<close> the converter (\<^verbatim>\<open>model.export(format=..., imgsz=...)\<close>). Each returns
  the file system it leaves behind, also when it raises.
\<close>

record 'm library =
  YOLO :: "string \<Rightarrow> filesystem \<Rightarrow> (exn + 'm) \<times> filesystem"
  export :: "'m \<Rightarrow> string \<Rightarrow> int list \<Rightarrow> filesystem \<Rightarrow> (exn + string) \<times> filesystem"

text \<open>
  A statement either returns a value or raises, and leaves a world behind in both cases.
  \<open>seq\<close> is the sequencing of two statements: the second runs only if the first returned.
\<close>

type_synonym ('a, 'm) result = "(exn + 'a) \<times> 'm world"

fun seq :: "('a, 'm) result \<Rightarrow> ('a \<Rightarrow> 'm world \<Rightarrow> ('b, 'm) result) \<Rightarrow> ('b, 'm) result" where
  "seq (Inl e, w) k = (Inl e, w)"
| "seq (Inr a, w) k = k a w"

definition print :: "string \<Rightarrow> 'm world \<Rightarrow> 'm world" where
  "print s w = w\<lparr>console := console w @ [s]\<rparr>"

subsection \<open>The calls of module \<^verbatim>\<open>os\<close>\<close>

definition os_path_exists :: "path \<Rightarrow> 'm world \<Rightarrow> bool" where
  "os_path_exists p w = (fs w p \<noteq> None)"

text \<open>
  \<^verbatim>\<open>os.makedirs(name, exist_ok=...)\<close> for a name without a directory part, as the script
  calls it: \<^verbatim>\<open>mkdir\<close> is attempted; its failure is passed over only when \<open>exist_ok\<close> holds
  and the name is a directory already.
\<close>

definition os_makedirs :: "path \<Rightarrow> bool \<Rightarrow> 'm world \<Rightarrow> (unit, 'm) result" where
  "os_makedirs name exist_ok w =
     (case fs w name of
        Some Dir \<Rightarrow> if exist_ok then (Inr (), w) else (Inl (OSError EEXIST name None), w)
      | Some (File c) \<Rightarrow> (Inl (OSError EEXIST name None), w)
      | None \<Rightarrow>
          (case faults w (Mkdir name) of
             Some e \<Rightarrow> (Inl e, w)
           | None \<Rightarrow> (Inr (), w\<lparr>fs := (fs w)(name \<mapsto> Dir)\<rparr>)))"

text \<open>
  \<^verbatim>\<open>os.path.dirname\<close> of a relative path: what stands before the last slash, nothing
  without a slash.
\<close>

definition dirname :: "path \<Rightarrow> path" where
  "dirname p = rev (drop 1 (dropWhile (\<lambda>c. c \<noteq> CHR ''/'') (rev p)))"

text \<open>\<open>below d p\<close>: the path \<open>p\<close> is \<open>d\<close> itself or lies inside the directory \<open>d\<close>.\<close>

definition below :: "path \<Rightarrow> path \<Rightarrow> bool" where
  "below d p = (p = d \<or> take (Suc (length d)) p = d @ ''/'')"

definition move_tree :: "path \<Rightarrow> path \<Rightarrow> filesystem \<Rightarrow> filesystem" where
  "move_tree src dst f =
     (\<lambda>p. if below dst p then f (src @ drop (length dst) p)
          else if below src p then None
          else f p)"

definition dir_empty :: "filesystem \<Rightarrow> path \<Rightarrow> bool" where
  "dir_empty f d = (\<forall>p. below d p \<and> p \<noteq> d \<longrightarrow> f p = None)"

text \<open>
  \<^verbatim>\<open>os.rename(src, dst)\<close>: the source must exist and the directory of the target must be
  a directory. A regular file replaces a regular file at the target silently and is
  refused by a directory there; a directory moves with all it holds, onto nothing or onto
  an empty directory, and never into itself.
\<close>

definition os_rename :: "path \<Rightarrow> path \<Rightarrow> 'm world \<Rightarrow> (unit, 'm) result" where
  "os_rename src dst w =
     (case fs w src of
        None \<Rightarrow> (Inl (OSError ENOENT src (Some dst)), w)
      | Some n \<Rightarrow>
          if dirname dst \<noteq> [] \<and> fs w (dirname dst) = None
            then (Inl (OSError ENOENT src (Some dst)), w)
          else if dirname dst \<noteq> [] \<and> fs w (dirname dst) \<noteq> Some Dir
            then (Inl (OSError ENOTDIR src (Some dst)), w)
          else
            (case faults w (Rename src dst) of
               Some e \<Rightarrow> (Inl e, w)
             | None \<Rightarrow>
                 (case n of
                    File c \<Rightarrow>
                      if fs w dst = Some Dir
                        then (Inl (OSError EISDIR src (Some dst)), w)
                      else (Inr (), w\<lparr>fs := (fs w)(src := None, dst \<mapsto> File c)\<rparr>)
                  | Dir \<Rightarrow>
                      if below src dst \<and> src \<noteq> dst
                        then (Inl (OSError EINVAL src (Some dst)), w)
                      else
                      (case fs w dst of
                         Some (File c) \<Rightarrow> (Inl (OSError ENOTDIR src (Some dst)), w)
                       | Some Dir \<Rightarrow>
                           if src = dst then (Inr (), w)
                           else if dir_empty (fs w) dst
                             then (Inr (), w\<lparr>fs := move_tree src dst (fs w)\<rparr>)
                           else (Inl (OSError ENOTEMPTY src (Some dst)), w)
                       | None \<Rightarrow> (Inr (), w\<lparr>fs := move_tree src dst (fs w)\<rparr>)))))"

section \<open>The script\<close>

subsection \<open>Calls into the library\<close>

text \<open>Each call is recorded in \<open>calls\<close> before the library runs on the file system.\<close>

definition call_YOLO :: "'m library \<Rightarrow> string \<Rightarrow> 'm world \<Rightarrow> ('m, 'm) result" where
  "call_YOLO L ident w =
     (let w' = w\<lparr>calls := calls w @ [Load ident]\<rparr>
      in case YOLO L ident (fs w') of (r, f) \<Rightarrow> (r, w'\<lparr>fs := f\<rparr>))"

definition call_export ::
  "'m library \<Rightarrow> 'm \<Rightarrow> string \<Rightarrow> int list \<Rightarrow> 'm world \<Rightarrow> (string, 'm) result" where
  "call_export L m fmt imgsz w =
     (let w' = w\<lparr>calls := calls w @ [Export m fmt imgsz]\<rparr>
      in case export L m fmt imgsz (fs w') of (r, f) \<Rightarrow> (r, w'\<lparr>fs := f\<rparr>))"

subsection \<open>\<^verbatim>\<open>download_yolov8n_models\<close>\<close>

definition pt_path :: path where
  "pt_path = ''models/yolov8n.pt''"

definition onnx_path :: path where
  "onnx_path = ''models/yolov8n.onnx''"

text \<open>Lines 17 and 18: the downloaded file, if there is one, moves to \<open>pt_path\<close>.\<close>

definition move_pt :: "'m world \<Rightarrow> (unit, 'm) result" where
  "move_pt w =
     (if os_path_exists ''yolov8n.pt'' w then os_rename ''yolov8n.pt'' pt_path w
      else (Inr (), w))"

text \<open>Lines 23 to 29: the conversion, guarded by the absence of its output.\<close>

definition convert :: "'m library \<Rightarrow> 'm world \<Rightarrow> (unit, 'm) result" where
  "convert L w =
     (if \<not> os_path_exists onnx_path w then
        seq (call_YOLO L pt_path w) (\<lambda>model w.
        seq (call_export L model ''onnx'' [640, 640] w) (\<lambda>_ w.
          if os_path_exists ''yolov8n.onnx'' w then os_rename ''yolov8n.onnx'' onnx_path w
          else (Inr (), w)))
      else (Inr (), w))"

text \<open>Lines 11 to 33: the statements inside \<^verbatim>\<open>try\<close>.\<close>

definition try_body :: "'m library \<Rightarrow> 'm world \<Rightarrow> (unit, 'm) result" where
  "try_body L w =
     seq (call_YOLO L ''yolov8n.pt'' (print ''Downloading YOLOv8n PyTorch model...'' w))
       (\<lambda>pt_model w.
     seq (move_pt w) (\<lambda>_ w.
     seq (convert L (print ''Converting to ONNX format...'' w)) (\<lambda>_ w.
       (Inr (),
        print (''ONNX model saved to: '' @ onnx_path)
          (print (''PyTorch model saved to: '' @ pt_path)
             (print ''Download complete!'' w))))))"

text \<open>Lines 35 to 38: the handler of \<^verbatim>\<open>except Exception as e\<close>.\<close>

definition handler :: "exn \<Rightarrow> 'm world \<Rightarrow> 'm world" where
  "handler e w =
     print ''pip install --upgrade ultralytics''
       (print ''Please make sure you have the latest ultralytics package installed:''
          (print (''Error downloading models: '' @ str e) w))"

text \<open>
  The whole function. \<^verbatim>\<open>os.makedirs\<close> (line 8) stands before \<^verbatim>\<open>try\<close>: what it raises
  leaves the function. What the statements inside \<^verbatim>\<open>try\<close> raise goes to the handler, and
  the function returns.
\<close>

definition download_yolov8n_models :: "'m library \<Rightarrow> 'm world \<Rightarrow> (unit, 'm) result" where
  "download_yolov8n_models L w =
     seq (os_makedirs ''models'' True w) (\<lambda>_ w.
       case try_body L w of
         (Inl e, w') \<Rightarrow> (Inr (), handler e w')
       | (Inr _, w') \<Rightarrow> (Inr (), w'))"

subsection \<open>\<^verbatim>\<open>verify_downloads\<close>\<close>

definition required_files :: "(string \<times> path) list" where
  "required_files = [(''PyTorch'', pt_path), (''ONNX'', onnx_path)]"

fun verify_loop :: "(string \<times> path) list \<Rightarrow> bool \<Rightarrow> 'm world \<Rightarrow> bool \<times> 'm world" where
  "verify_loop [] all_exists w = (all_exists, w)"
| "verify_loop ((name, path) # rest) all_exists w =
     (let exists = os_path_exists path w;
          w' = print (name @ '' model: '' @ (if exists then ''Found'' else ''Missing'')
                        @ '' at '' @ path) w
      in verify_loop rest (if \<not> exists then False else all_exists) w')"

definition verify_downloads :: "'m world \<Rightarrow> bool \<times> 'm world" where
  "verify_downloads w = verify_loop required_files True w"

subsection \<open>The entry point\<close>

definition main :: "'m library \<Rightarrow> 'm world \<Rightarrow> (unit, 'm) result" where
  "main L w =
     seq (download_yolov8n_models L w) (\<lambda>_ w.
       case verify_downloads w of
         (ok, w') \<Rightarrow>
           (Inr (),
            if ok then print ''All model files downloaded successfully!'' w'
            else print ''Some model files failed to download. Please check errors above.'' w'))"

text \<open>
  The exit status of the interpreter: 0 when the script runs to its end, 1 when an
  exception leaves it.
\<close>

fun exit_status :: "('a, 'm) result \<Rightarrow> nat" where
  "exit_status (Inl e, w) = 1"
| "exit_status (Inr a, w) = 0"

section \<open>Conditions on the library and sample environments\<close>



text \<open>
  Lines 20 to 33 taken alone: what the statements inside \<^verbatim>\<open>try\<close> do from the world in
  which the relocation of lines 17 and 18 is done (lemma \<open>try_body_after_loader\<close>).
\<close>

definition after_relocation :: "'m library \<Rightarrow> 'm world \<Rightarrow> (unit, 'm) result" where
  "after_relocation L w =
     seq (convert L (print ''Converting to ONNX format...'' w)) (\<lambda>_ w.
       (Inr (),
        print (''ONNX model saved to: '' @ onnx_path)
          (print (''PyTorch model saved to: '' @ pt_path)
             (print ''Download complete!'' w))))"

text \<open>
  \<open>library_raises L w e w'\<close>: in the statements inside \<^verbatim>\<open>try\<close>, started in the world
  \<open>w\<close>, a call into the library raises \<open>e\<close> and leaves the world \<open>w'\<close>. The call is the
  loader at line 13, or, after the relocation and with no secondary artifact in the
  output directory, the loader at line 24 or the converter at line 25.
\<close>

definition library_raises :: "'m library \<Rightarrow> 'm world \<Rightarrow> exn \<Rightarrow> 'm world \<Rightarrow> bool" where
  "library_raises L w e w' =
     (call_YOLO L ''yolov8n.pt'' (print ''Downloading YOLOv8n PyTorch model...'' w) = (Inl e, w')
      \<or> (\<exists>m wa wb.
            call_YOLO L ''yolov8n.pt'' (print ''Downloading YOLOv8n PyTorch model...'' w)
              = (Inr m, wa) \<and>
            move_pt wa = (Inr (), wb) \<and>
            \<not> os_path_exists onnx_path wb \<and>
            (call_YOLO L pt_path (print ''Converting to ONNX format...'' wb) = (Inl e, w')
             \<or> (\<exists>m' wc.
                   call_YOLO L pt_path (print ''Converting to ONNX format...'' wb) = (Inr m', wc) \<and>
                   call_export L m' ''onnx'' [640, 640] wc = (Inl e, w')))))"

text \<open>
  \<open>delivers L\<close>: the loader and the converter succeed, and each writes its non-empty
  output into the working directory and changes nothing else; loading from the output
  directory changes nothing.
\<close>

definition delivers :: "'m library \<Rightarrow> bool" where
  "delivers L =
     ((\<forall>f. \<exists>m c. c \<noteq> [] \<and> YOLO L ''yolov8n.pt'' f = (Inr m, f(''yolov8n.pt'' \<mapsto> File c))) \<and>
      (\<forall>f. \<exists>m. YOLO L ''models/yolov8n.pt'' f = (Inr m, f)) \<and>
      (\<forall>m f. \<exists>r c. c \<noteq> [] \<and>
          export L m ''onnx'' [640, 640] f = (Inr r, f(''yolov8n.onnx'' \<mapsto> File c))))"

text \<open>
  Sample libraries, with the identifier a model was loaded from as the model object:
  one that downloads \<open>weights\<close> into the working directory and converts there, one
  without network, and one whose converter fails.
\<close>

definition sample_library :: "string \<Rightarrow> string library" where
  "sample_library weights =
     \<lparr>YOLO = (\<lambda>ident f.
         if ident = ''yolov8n.pt'' then (Inr ident, f(''yolov8n.pt'' \<mapsto> File weights))
         else (Inr ident, f)),
      export = (\<lambda>m fmt imgsz f.
         (Inr ''yolov8n.onnx'', f(''yolov8n.onnx'' \<mapsto> File (''onnx of '' @ weights))))\<rparr>"

definition offline_library :: "string library" where
  "offline_library =
     \<lparr>YOLO = (\<lambda>ident f. (Inl (Error ''Connection refused''), f)),
      export = (\<lambda>m fmt imgsz f. (Inl (Error ''Connection refused''), f))\<rparr>"

definition failing_converter :: "string \<Rightarrow> string library" where
  "failing_converter weights =
     \<lparr>YOLO = (\<lambda>ident f.
         if ident = ''yolov8n.pt'' then (Inr ident, f(''yolov8n.pt'' \<mapsto> File weights))
         else (Inr ident, f)),
      export = (\<lambda>m fmt imgsz f. (Inl (Error ''Unsupported opset''), f))\<rparr>"

text \<open>
  Sample worlds, all with an operating system that refuses nothing: a fresh working
  directory; one where \<^verbatim>\<open>models\<close> is a regular file; one holding the primary artifact
  only; one holding both artifacts.
\<close>

definition no_faults :: "syscall \<Rightarrow> exn option" where
  "no_faults = (\<lambda>_. None)"

definition empty_world :: "string world" where
  "empty_world = \<lparr>fs = Map.empty, console = [], calls = [], faults = no_faults\<rparr>"

definition blocked_world :: "string world" where
  "blocked_world =
     \<lparr>fs = [''models'' \<mapsto> File ''notes''], console = [], calls = [], faults = no_faults\<rparr>"

definition primary_only_world :: "string world" where
  "primary_only_world =
     \<lparr>fs = [''models'' \<mapsto> Dir, ''models/yolov8n.pt'' \<mapsto> File ''v1''],
      console = [], calls = [], faults = no_faults\<rparr>"

definition populated_world :: "string world" where
  "populated_world =
     \<lparr>fs = [''models'' \<mapsto> Dir, ''models/yolov8n.pt'' \<mapsto> File ''v1'',
            ''models/yolov8n.onnx'' \<mapsto> File ''onnx of v1''],
      console = [], calls = [], faults = no_faults\<rparr>"

text \<open>
  The worlds of the run of \<open>sample_library c\<close> from the fresh working directory: after
  line 8, after line 13 and after line 18.
\<close>

definition created_world :: "string world" where
  "created_world = \<lparr>fs = [''models'' \<mapsto> Dir], console = [], calls = [], faults = no_faults\<rparr>"

definition loaded_world :: "string \<Rightarrow> string world" where
  "loaded_world c =
     \<lparr>fs = [''models'' \<mapsto> Dir, ''yolov8n.pt'' \<mapsto> File c],
      console = [''Downloading YOLOv8n PyTorch model...''],
      calls = [Load ''yolov8n.pt''], faults = no_faults\<rparr>"

definition relocated_world :: "string \<Rightarrow> string world" where
  "relocated_world c =
     \<lparr>fs = [''models'' \<mapsto> Dir, ''models/yolov8n.pt'' \<mapsto> File c],
      console = [''Downloading YOLOv8n PyTorch model...''],
      calls = [Load ''yolov8n.pt''], faults = no_faults\<rparr>"

text \<open>
  Fresh working directories in which the operating system denies one of the two moves.
\<close>

definition denied_relocation_world :: "string world" where
  "denied_relocation_world =
     \<lparr>fs = Map.empty, console = [], calls = [],
      faults = [Rename ''yolov8n.pt'' ''models/yolov8n.pt''
                  \<mapsto> OSError EACCES ''yolov8n.pt'' (Some ''models/yolov8n.pt'')]\<rparr>"

definition denied_onnx_move_world :: "string world" where
  "denied_onnx_move_world =
     \<lparr>fs = Map.empty, console = [], calls = [],
      faults = [Rename ''yolov8n.onnx'' ''models/yolov8n.onnx''
                  \<mapsto> OSError EACCES ''yolov8n.onnx'' (Some ''models/yolov8n.onnx'')]\<rparr>"

section \<open>Basic facts\<close>

lemma print_fields [simp]:
  "fs (print s w) = fs w" "calls (print s w) = calls w" "faults (print s w) = faults w"
  "console (print s w) = console w @ [s]"
  by (simp_all add: print_def)

lemma os_path_exists_print [simp]: "os_path_exists p (print s w) = os_path_exists p w"
  by (simp add: os_path_exists_def)

lemma dirname_pt [simp]: "dirname pt_path = ''models''"
  by (simp add: dirname_def pt_path_def)

lemma dirname_onnx [simp]: "dirname onnx_path = ''models''"
  by (simp add: dirname_def onnx_path_def)

lemma os_makedirs_raises: "os_makedirs name ok w = (Inl e, w') \<Longrightarrow> w' = w"
  by (auto simp: os_makedirs_def split: option.splits node.splits if_splits)

lemma os_rename_raises: "os_rename s d w = (Inl e, w') \<Longrightarrow> w' = w"
  by (auto simp: os_rename_def split: option.splits node.splits if_splits)

lemma os_rename_fields:
  "os_rename s d w = (r, w') \<Longrightarrow>
     console w' = console w \<and> calls w' = calls w \<and> faults w' = faults w"
  by (auto simp: os_rename_def split: option.splits node.splits if_splits)

lemma os_rename_elsewhere:
  "os_rename s d w = (r, w') \<Longrightarrow> \<not> below s p \<Longrightarrow> \<not> below d p \<Longrightarrow> fs w' p = fs w p"
  by (auto simp: os_rename_def move_tree_def below_def split: option.splits node.splits if_splits)


lemma os_rename_file:
  "fs w s = Some (File c) \<Longrightarrow> fs w (dirname d) = Some Dir \<Longrightarrow> fs w d \<noteq> Some Dir \<Longrightarrow>
   faults w (Rename s d) = None \<Longrightarrow>
   os_rename s d w = (Inr (), w\<lparr>fs := (fs w)(s := None, d \<mapsto> File c)\<rparr>)"
  by (simp add: os_rename_def)

lemma verify_downloads_unfold:
  "verify_downloads w =
     (os_path_exists pt_path w \<and> os_path_exists onnx_path w,
      print (''ONNX model: '' @ (if os_path_exists onnx_path w then ''Found'' else ''Missing'')
               @ '' at '' @ onnx_path)
        (print (''PyTorch model: '' @ (if os_path_exists pt_path w then ''Found'' else ''Missing'')
                  @ '' at '' @ pt_path) w))"
  by (simp add: verify_downloads_def required_files_def Let_def)

lemma convert_skips: "os_path_exists onnx_path w \<Longrightarrow> convert L w = (Inr (), w)"
  by (simp add: convert_def)

text \<open>
  How an exception of the library reaches the end of the statements inside \<^verbatim>\<open>try\<close>:
  from the loader at line 13, from the loader at line 24, from the converter at line 25.
\<close>

lemma loader_raises_in_try:
  "call_YOLO L ''yolov8n.pt'' (print ''Downloading YOLOv8n PyTorch model...'' w) = (Inl e, w')
   \<Longrightarrow> try_body L w = (Inl e, w')"
  by (simp add: try_body_def)

lemma reload_raises_in_convert:
  "\<not> os_path_exists onnx_path w \<Longrightarrow> call_YOLO L pt_path w = (Inl e, w')
   \<Longrightarrow> convert L w = (Inl e, w')"
  by (simp add: convert_def)

lemma converter_raises_in_convert:
  "\<not> os_path_exists onnx_path w \<Longrightarrow> call_YOLO L pt_path w = (Inr m, w')
   \<Longrightarrow> call_export L m ''onnx'' [640, 640] w' = (Inl e, w'')
   \<Longrightarrow> convert L w = (Inl e, w'')"
  by (simp add: convert_def)

lemma convert_raises_in_try:
  "call_YOLO L ''yolov8n.pt'' (print ''Downloading YOLOv8n PyTorch model...'' w) = (Inr m, wa)
   \<Longrightarrow> move_pt wa = (Inr (), wb)
   \<Longrightarrow> convert L (print ''Converting to ONNX format...'' wb) = (Inl e, wc)
   \<Longrightarrow> try_body L w = (Inl e, wc)"
  by (simp add: try_body_def)

text \<open>What the steps leave of the two artifacts in the output directory.\<close>

lemma not_below_artifacts [simp]:
  "\<not> below ''yolov8n.pt'' onnx_path" "\<not> below pt_path onnx_path"
  "\<not> below ''yolov8n.onnx'' pt_path" "\<not> below onnx_path pt_path"
  by (simp_all add: below_def pt_path_def onnx_path_def)

lemma os_makedirs_present:
  "fs w name = Some Dir \<Longrightarrow> os_makedirs name True w = (Inr (), w)"
  by (simp add: os_makedirs_def)

lemma os_makedirs_creates:
  assumes "fs w name = None \<or> fs w name = Some Dir" and "faults w (Mkdir name) = None"
  shows "os_makedirs name True w = (Inr (), w\<lparr>fs := (fs w)(name \<mapsto> Dir)\<rparr>)"
proof -
  have "fs w name = Some Dir \<Longrightarrow> (fs w)(name \<mapsto> Dir) = fs w"
    by (rule fun_upd_idem) simp
  with assms show ?thesis
    by (auto simp: os_makedirs_def)
qed






lemma try_body_after_loader:
  "call_YOLO L ''yolov8n.pt'' (print ''Downloading YOLOv8n PyTorch model...'' w) = (Inr m, w2)
   \<Longrightarrow> try_body L w = seq (move_pt w2) (\<lambda>_ w. after_relocation L w)"
  by (simp add: try_body_def after_relocation_def)

lemma download_after_makedirs:
  "os_makedirs ''models'' True w = (Inr (), w1) \<Longrightarrow>
   download_yolov8n_models L w =
     (case try_body L w1 of
        (Inl e, w') \<Rightarrow> (Inr (), handler e w')
      | (Inr u, w') \<Rightarrow> (Inr (), w'))"
  by (simp add: download_yolov8n_models_def)

lemma move_pt_absent: "fs w ''yolov8n.pt'' = None \<Longrightarrow> move_pt w = (Inr (), w)"
  by (simp add: move_pt_def os_path_exists_def)

lemma move_pt_file:
  "fs w ''yolov8n.pt'' = Some (File c) \<Longrightarrow> fs w ''models'' = Some Dir \<Longrightarrow>
   fs w pt_path \<noteq> Some Dir \<Longrightarrow> faults w (Rename ''yolov8n.pt'' pt_path) = None \<Longrightarrow>
   move_pt w = (Inr (), w\<lparr>fs := (fs w)(''yolov8n.pt'' := None, pt_path \<mapsto> File c)\<rparr>)"
  by (simp add: move_pt_def os_path_exists_def os_rename_file)

lemma move_pt_fields:
  "move_pt w = (r, w') \<Longrightarrow>
     console w' = console w \<and> calls w' = calls w \<and> faults w' = faults w"
  by (auto simp: move_pt_def dest: os_rename_fields split: if_splits)

lemma move_pt_onnx: "fs (snd (move_pt w)) onnx_path = fs w onnx_path"
  by (cases "os_rename ''yolov8n.pt'' pt_path w")
     (auto simp: move_pt_def dest: os_rename_elsewhere [where p = onnx_path])







lemma handler_fields [simp]:
  "fs (handler e w) = fs w" "calls (handler e w) = calls w" "faults (handler e w) = faults w"
  by (simp_all add: handler_def)

lemma verify_downloads_fs [simp]: "fs (snd (verify_downloads w)) = fs w"
  by (simp add: verify_downloads_unfold)

lemma main_fs: "fs (snd (main L w)) = fs (snd (download_yolov8n_models L w))"
proof (cases "download_yolov8n_models L w")
  case (Pair r w1)
  then show ?thesis
    by (cases r) (simp_all add: main_def verify_downloads_unfold)
qed



lemma sample_library_delivers:
  assumes "c \<noteq> []"
  shows "delivers (sample_library c)"
proof -
  have "\<exists>c'. c' \<noteq> [] \<and> f(p \<mapsto> File c) = f(p \<mapsto> File c')" for f :: filesystem and p
    using assms by blast
  moreover have "\<exists>c'. c' \<noteq> [] \<and> f(p \<mapsto> File (''onnx of '' @ c)) = f(p \<mapsto> File c')"
    for f :: filesystem and p
    by (rule exI [of _ "''onnx of '' @ c"]) simp
  ultimately show ?thesis
    by (simp add: delivers_def sample_library_def)
qed

text \<open>The run of the whole script that succeeds, from a fresh working directory.\<close>

lemma fresh_sample_run:
  "main (sample_library ''v1'') empty_world =
     (Inr (),
      \<lparr>fs = [''models'' \<mapsto> Dir, ''models/yolov8n.pt'' \<mapsto> File ''v1'',
             ''models/yolov8n.onnx'' \<mapsto> File ''onnx of v1''],
       console =
         [''Downloading YOLOv8n PyTorch model...'', ''Converting to ONNX format...'',
          ''Download complete!'', ''PyTorch model saved to: models/yolov8n.pt'',
          ''ONNX model saved to: models/yolov8n.onnx'',
          ''PyTorch model: Found at models/yolov8n.pt'',
          ''ONNX model: Found at models/yolov8n.onnx'',
          ''All model files downloaded successfully!''],
       calls = [Load ''yolov8n.pt'', Load ''models/yolov8n.pt'',
                Export ''models/yolov8n.pt'' ''onnx'' [640, 640]],
       faults = no_faults\<rparr>)"
  by (simp add: main_def download_yolov8n_models_def os_makedirs_def empty_world_def no_faults_def
      try_body_def call_YOLO_def sample_library_def move_pt_def os_path_exists_def os_rename_def
      pt_path_def onnx_path_def dirname_def convert_def call_export_def verify_downloads_unfold
      print_def fun_upd_twist)

text \<open>An exception of the library ends the statements inside \<^verbatim>\<open>try\<close>.\<close>

lemma library_raises_in_try:
  assumes "library_raises L w e w'"
  shows "try_body L w = (Inl e, w')"
  using assms unfolding library_raises_def
proof (elim disjE exE conjE)
  assume "call_YOLO L ''yolov8n.pt'' (print ''Downloading YOLOv8n PyTorch model...'' w)
            = (Inl e, w')"
  then show ?thesis by (rule loader_raises_in_try)
next
  fix m wa wb
  assume first: "call_YOLO L ''yolov8n.pt'' (print ''Downloading YOLOv8n PyTorch model...'' w)
                   = (Inr m, wa)"
    and moved: "move_pt wa = (Inr (), wb)"
    and absent: "\<not> os_path_exists onnx_path wb"
    and reload: "call_YOLO L pt_path (print ''Converting to ONNX format...'' wb) = (Inl e, w')"
  from absent reload have "convert L (print ''Converting to ONNX format...'' wb) = (Inl e, w')"
    by (simp add: reload_raises_in_convert)
  with first moved show ?thesis by (rule convert_raises_in_try)
next
  fix m wa wb m' wc
  assume first: "call_YOLO L ''yolov8n.pt'' (print ''Downloading YOLOv8n PyTorch model...'' w)
                   = (Inr m, wa)"
    and moved: "move_pt wa = (Inr (), wb)"
    and absent: "\<not> os_path_exists onnx_path wb"
    and reload: "call_YOLO L pt_path (print ''Converting to ONNX format...'' wb) = (Inr m', wc)"
    and conv: "call_export L m' ''onnx'' [640, 640] wc = (Inl e, w')"
  from absent reload conv
  have "convert L (print ''Converting to ONNX format...'' wb) = (Inl e, w')"
    by (simp add: converter_raises_in_convert)
  with first moved show ?thesis by (rule convert_raises_in_try)
qed


text \<open>The first steps of the sample run.\<close>

lemma sample_run_steps:
  "os_makedirs ''models'' True empty_world = (Inr (), created_world)"
  "call_YOLO (sample_library c) ''yolov8n.pt''
     (print ''Downloading YOLOv8n PyTorch model...'' created_world)
     = (Inr ''yolov8n.pt'', loaded_world c)"
  "move_pt (loaded_world c) = (Inr (), relocated_world c)"
  by (simp_all add: os_makedirs_def empty_world_def created_world_def loaded_world_def
      relocated_world_def no_faults_def call_YOLO_def sample_library_def print_def move_pt_def
      os_path_exists_def os_rename_def pt_path_def dirname_def)

section \<open>The claims\<close>

text \<open>
  C1. Whatever the library is: when the loader or the converter raises an exception \<open>e\<close>
  during \<^verbatim>\<open>download_yolov8n_models\<close> (at line 13, 24 or 25), the function returns
  normally, having printed the error message with \<^verbatim>\<open>str(e)\<close> and the two lines of the
  hint, and the entry point goes on to \<^verbatim>\<open>verify_downloads\<close> and to the summary line
  that its result selects.
\<close>

theorem acquirer_catches_every_exception:
  assumes "os_makedirs ''models'' True w = (Inr (), w1)"
      and "library_raises L w1 e w2"
  shows "download_yolov8n_models L w = (Inr (), handler e w2) \<and>
         console (handler e w2) = console w2 @
           [''Error downloading models: '' @ str e,
            ''Please make sure you have the latest ultralytics package installed:'',
            ''pip install --upgrade ultralytics''] \<and>
         main L w = (Inr (),
            print (if fst (verify_downloads (handler e w2))
                   then ''All model files downloaded successfully!''
                   else ''Some model files failed to download. Please check errors above.'')
              (snd (verify_downloads (handler e w2))))"
proof -
  from assms(2) have "try_body L w1 = (Inl e, w2)"
    by (rule library_raises_in_try)
  with assms(1) show ?thesis
    by (simp add: download_yolov8n_models_def main_def handler_def split: prod.splits)
qed

text \<open>
  The run without network from a fresh working directory: the loader raises at line 13,
  and the console shows the error, the hint, both files missing and the summary of failure.
\<close>

theorem acquirer_catches_every_exception_witness:
  "os_makedirs ''models'' True empty_world
     = (Inr (), empty_world\<lparr>fs := [''models'' \<mapsto> Dir]\<rparr>) \<and>
   library_raises offline_library (empty_world\<lparr>fs := [''models'' \<mapsto> Dir]\<rparr>)
     (Error ''Connection refused'')
     (empty_world\<lparr>fs := [''models'' \<mapsto> Dir],
                   console := [''Downloading YOLOv8n PyTorch model...''],
                   calls := [Load ''yolov8n.pt'']\<rparr>) \<and>
   fst (download_yolov8n_models offline_library empty_world) = Inr () \<and>
   fst (main offline_library empty_world) = Inr () \<and>
   console (snd (main offline_library empty_world)) =
     [''Downloading YOLOv8n PyTorch model...'',
      ''Error downloading models: Connection refused'',
      ''Please make sure you have the latest ultralytics package installed:'',
      ''pip install --upgrade ultralytics'',
      ''PyTorch model: Missing at models/yolov8n.pt'',
      ''ONNX model: Missing at models/yolov8n.onnx'',
      ''Some model files failed to download. Please check errors above.'']"
proof -
  let ?w1 = "empty_world\<lparr>fs := [''models'' \<mapsto> Dir]\<rparr>"
  let ?w2 = "empty_world\<lparr>fs := [''models'' \<mapsto> Dir],
                     console := [''Downloading YOLOv8n PyTorch model...''],
                     calls := [Load ''yolov8n.pt'']\<rparr>"
  have mk: "os_makedirs ''models'' True empty_world = (Inr (), ?w1)"
    by (simp add: os_makedirs_def empty_world_def no_faults_def)
  have raised: "library_raises offline_library ?w1 (Error ''Connection refused'') ?w2"
    by (simp add: library_raises_def call_YOLO_def offline_library_def empty_world_def print_def)
  have v: "verify_downloads (handler (Error ''Connection refused'') ?w2) =
      (False,
       (handler (Error ''Connection refused'') ?w2)\<lparr>console :=
          [''Downloading YOLOv8n PyTorch model...'',
           ''Error downloading models: Connection refused'',
           ''Please make sure you have the latest ultralytics package installed:'',
           ''pip install --upgrade ultralytics'',
           ''PyTorch model: Missing at models/yolov8n.pt'',
           ''ONNX model: Missing at models/yolov8n.onnx'']\<rparr>)"
    by (simp add: verify_downloads_unfold handler_def os_path_exists_def pt_path_def
        onnx_path_def empty_world_def print_def)
  from acquirer_catches_every_exception [OF mk raised] mk raised v show ?thesis
    by simp
qed

text \<open>
  C2, amended. \<^verbatim>\<open>os.makedirs\<close> is called before \<^verbatim>\<open>try\<close> is entered. Every failure it
  raises leaves \<^verbatim>\<open>download_yolov8n_models\<close> uncaught, with nothing printed and no call
  into the library, and leaves the entry point too, which neither verifies nor prints a
  summary.
\<close>

theorem directory_creation_failure_propagates:
  assumes "os_makedirs ''models'' True w = (Inl e, w')"
  shows "download_yolov8n_models L w = (Inl e, w) \<and> main L w = (Inl e, w)"
  using assms os_makedirs_raises [OF assms]
  by (simp add: download_yolov8n_models_def main_def)

text \<open>A working directory in which the operating system denies the creation.\<close>

theorem directory_creation_failure_propagates_witness:
  "os_makedirs ''models'' True
     (empty_world\<lparr>faults := [Mkdir ''models'' \<mapsto> OSError EACCES ''models'' None]\<rparr>)
     = (Inl (OSError EACCES ''models'' None),
        empty_world\<lparr>faults := [Mkdir ''models'' \<mapsto> OSError EACCES ''models'' None]\<rparr>) \<and>
   download_yolov8n_models (sample_library ''v1'')
     (empty_world\<lparr>faults := [Mkdir ''models'' \<mapsto> OSError EACCES ''models'' None]\<rparr>)
     = (Inl (OSError EACCES ''models'' None),
        empty_world\<lparr>faults := [Mkdir ''models'' \<mapsto> OSError EACCES ''models'' None]\<rparr>) \<and>
   main (sample_library ''v1'')
     (empty_world\<lparr>faults := [Mkdir ''models'' \<mapsto> OSError EACCES ''models'' None]\<rparr>)
     = (Inl (OSError EACCES ''models'' None),
        empty_world\<lparr>faults := [Mkdir ''models'' \<mapsto> OSError EACCES ''models'' None]\<rparr>)"
proof -
  let ?w = "empty_world\<lparr>faults := [Mkdir ''models'' \<mapsto> OSError EACCES ''models'' None]\<rparr>"
  have mk: "os_makedirs ''models'' True ?w = (Inl (OSError EACCES ''models'' None), ?w)"
    by (simp add: os_makedirs_def empty_world_def)
  from directory_creation_failure_propagates [OF mk] mk show ?thesis
    by simp
qed

text \<open>
  The statement of C2 as the specification has it, that such a failure is caught and
  turned into a printed diagnostic, fails where \<^verbatim>\<open>models\<close> is a regular file:
  \<^verbatim>\<open>FileExistsError\<close> leaves the function and the console stays empty.
\<close>

theorem directory_creation_failure_not_caught:
  "download_yolov8n_models offline_library blocked_world
     = (Inl (OSError EEXIST ''models'' None), blocked_world) \<and>
   console blocked_world = []"
  by (simp add: download_yolov8n_models_def os_makedirs_def blocked_world_def)

text \<open>
  C3. In every state of the file system, \<^verbatim>\<open>verify_downloads\<close> returns true exactly when
  both \<^verbatim>\<open>models/yolov8n.pt\<close> and \<^verbatim>\<open>models/yolov8n.onnx\<close> exist. It prints one line for
  each, with "Found" or "Missing" by existence alone, whatever the entry is or holds, and
  changes nothing but the console.
\<close>

theorem verifier_reports_existence:
  "verify_downloads w =
     (fs w ''models/yolov8n.pt'' \<noteq> None \<and> fs w ''models/yolov8n.onnx'' \<noteq> None,
      w\<lparr>console := console w @
          [''PyTorch model: ''
             @ (if fs w ''models/yolov8n.pt'' \<noteq> None then ''Found'' else ''Missing'')
             @ '' at models/yolov8n.pt'',
           ''ONNX model: ''
             @ (if fs w ''models/yolov8n.onnx'' \<noteq> None then ''Found'' else ''Missing'')
             @ '' at models/yolov8n.onnx'']\<rparr>)"
  by (simp add: verify_downloads_unfold os_path_exists_def pt_path_def onnx_path_def print_def)

text \<open>An output directory that holds the primary artifact only.\<close>

theorem verifier_reports_existence_witness:
  "verify_downloads primary_only_world =
     (False,
      primary_only_world\<lparr>console :=
        [''PyTorch model: Found at models/yolov8n.pt'',
         ''ONNX model: Missing at models/yolov8n.onnx'']\<rparr>)"
  using verifier_reports_existence [of primary_only_world]
  by (simp add: primary_only_world_def)

text \<open>
  C4, amended. Where \<^verbatim>\<open>models/yolov8n.onnx\<close> exists when line 23 is reached, the
  conversion does nothing at all. In a run on a populated output directory whose loader
  call leaves that directory as it is: the loader call of line 13 is the only call into
  the library, so nothing is exported, and \<^verbatim>\<open>models/yolov8n.onnx\<close> keeps its content.
  \<^verbatim>\<open>models/yolov8n.pt\<close> keeps its content if the loader leaves no \<^verbatim>\<open>yolov8n.pt\<close> in the
  working directory; if the loader returns and leaves a regular file there, and the
  operating system permits the rename, \<^verbatim>\<open>models/yolov8n.pt\<close> is replaced by that file.
\<close>

theorem second_run_skips_conversion:
  assumes pop: "fs w ''models'' = Some Dir" "fs w ''models/yolov8n.pt'' = Some (File c1)"
               "fs w ''models/yolov8n.onnx'' = Some (File c2)"
      and loader: "YOLO L ''yolov8n.pt'' (fs w) = (r, f)"
      and kept: "f ''models'' = Some Dir" "f ''models/yolov8n.pt'' = Some (File c1)"
                "f ''models/yolov8n.onnx'' = Some (File c2)"
  shows "(os_path_exists ''models/yolov8n.onnx'' v \<longrightarrow> convert L v = (Inr (), v)) \<and>
         (\<exists>w'. download_yolov8n_models L w = (Inr (), w') \<and>
               calls w' = calls w @ [Load ''yolov8n.pt''] \<and>
               fs w' ''models/yolov8n.onnx'' = Some (File c2) \<and>
               (f ''yolov8n.pt'' = None \<longrightarrow> fs w' ''models/yolov8n.pt'' = Some (File c1)) \<and>
               (\<forall>m c. r = Inr m \<and> f ''yolov8n.pt'' = Some (File c) \<and>
                      faults w (Rename ''yolov8n.pt'' ''models/yolov8n.pt'') = None \<longrightarrow>
                        fs w' ''models/yolov8n.pt'' = Some (File c)))"
proof
  show "os_path_exists ''models/yolov8n.onnx'' v \<longrightarrow> convert L v = (Inr (), v)"
    using convert_skips [of v L] by (simp add: onnx_path_def)
next
  let ?w0 = "print ''Downloading YOLOv8n PyTorch model...'' w"
  define w1 where "w1 = ?w0\<lparr>calls := calls w @ [Load ''yolov8n.pt''], fs := f\<rparr>"
  have mk: "os_makedirs ''models'' True w = (Inr (), w)"
    using pop(1) by (rule os_makedirs_present)
  have c1: "call_YOLO L ''yolov8n.pt'' ?w0 = (r, w1)"
    using loader by (simp add: call_YOLO_def w1_def)
  have w1: "fs w1 = f" "calls w1 = calls w @ [Load ''yolov8n.pt'']" "faults w1 = faults w"
    by (simp_all add: w1_def)
  show "\<exists>w'. download_yolov8n_models L w = (Inr (), w') \<and>
               calls w' = calls w @ [Load ''yolov8n.pt''] \<and>
               fs w' ''models/yolov8n.onnx'' = Some (File c2) \<and>
               (f ''yolov8n.pt'' = None \<longrightarrow> fs w' ''models/yolov8n.pt'' = Some (File c1)) \<and>
               (\<forall>m c. r = Inr m \<and> f ''yolov8n.pt'' = Some (File c) \<and>
                      faults w (Rename ''yolov8n.pt'' ''models/yolov8n.pt'') = None \<longrightarrow>
                        fs w' ''models/yolov8n.pt'' = Some (File c))"
  proof (cases r)
    case (Inl e)
    with c1 have "try_body L w = (Inl e, w1)"
      by (simp add: try_body_def)
    with mk have "download_yolov8n_models L w = (Inr (), handler e w1)"
      by (simp add: download_yolov8n_models_def)
    with Inl w1 kept show ?thesis by simp
  next
    case (Inr m)
    obtain r2 w2 where c2: "move_pt w1 = (r2, w2)"
      by (cases "move_pt w1")
    have w2: "calls w2 = calls w1" "fs w2 onnx_path = fs w1 onnx_path"
      using move_pt_fields [OF c2] move_pt_onnx [of w1] c2 by simp_all
    have absent: "f ''yolov8n.pt'' = None \<Longrightarrow> fs w2 pt_path = Some (File c1)"
      using move_pt_absent [of w1] c2 w1 kept by (auto simp: pt_path_def)
    have fresh: "fs w2 pt_path = Some (File c)"
      if "f ''yolov8n.pt'' = Some (File c)" "faults w (Rename ''yolov8n.pt'' pt_path) = None"
      for c
      using move_pt_file [of w1 c] c2 w1 kept that by (auto simp: pt_path_def)
    show ?thesis
    proof (cases r2)
      case (Inl e)
      with c1 c2 Inr have "try_body L w = (Inl e, w2)"
        by (simp add: try_body_def)
      with mk have "download_yolov8n_models L w = (Inr (), handler e w2)"
        by (simp add: download_yolov8n_models_def)
      with w1 w2 kept absent fresh show ?thesis
        by (simp add: pt_path_def onnx_path_def)
    next
      case r2: (Inr u)
      let ?w3 = "print ''Converting to ONNX format...'' w2"
      have "convert L ?w3 = (Inr (), ?w3)"
        using w2 w1 kept by (simp add: convert_skips os_path_exists_def onnx_path_def)
      with c1 c2 Inr r2
      have "\<exists>w'. try_body L w = (Inr (), w') \<and> fs w' = fs w2 \<and> calls w' = calls w2"
        by (simp add: try_body_def)
      then obtain w' where "try_body L w = (Inr (), w')" "fs w' = fs w2" "calls w' = calls w2"
        by blast
      with mk
      have "download_yolov8n_models L w = (Inr (), w') \<and> fs w' = fs w2 \<and> calls w' = calls w2"
        by (simp add: download_yolov8n_models_def)
      with w1 w2 kept absent fresh show ?thesis
        by (simp add: pt_path_def onnx_path_def)
    qed
  qed
qed

text \<open>
  A second run whose loader downloads the content that the output directory holds
  already: nothing is converted, and both artifacts read as before.
\<close>

theorem second_run_skips_conversion_witness:
  "fs populated_world ''models'' = Some Dir \<and>
   fs populated_world ''models/yolov8n.pt'' = Some (File ''v1'') \<and>
   fs populated_world ''models/yolov8n.onnx'' = Some (File ''onnx of v1'') \<and>
   YOLO (sample_library ''v1'') ''yolov8n.pt'' (fs populated_world)
     = (Inr ''yolov8n.pt'', (fs populated_world)(''yolov8n.pt'' \<mapsto> File ''v1'')) \<and>
   os_path_exists ''models/yolov8n.onnx'' populated_world \<and>
   convert (sample_library ''v1'') populated_world = (Inr (), populated_world) \<and>
   (\<exists>w'. download_yolov8n_models (sample_library ''v1'') populated_world = (Inr (), w') \<and>
      calls w' = [Load ''yolov8n.pt''] \<and>
      fs w' ''models/yolov8n.onnx'' = Some (File ''onnx of v1'') \<and>
      fs w' ''models/yolov8n.pt'' = Some (File ''v1''))"
proof -
  let ?f = "(fs populated_world)(''yolov8n.pt'' \<mapsto> File ''v1'')"
  have pop: "fs populated_world ''models'' = Some Dir"
    "fs populated_world ''models/yolov8n.pt'' = Some (File ''v1'')"
    "fs populated_world ''models/yolov8n.onnx'' = Some (File ''onnx of v1'')"
    by (simp_all add: populated_world_def)
  have loader: "YOLO (sample_library ''v1'') ''yolov8n.pt'' (fs populated_world)
      = (Inr ''yolov8n.pt'', ?f)"
    by (simp add: sample_library_def)
  have kept: "?f ''models'' = Some Dir" "?f ''models/yolov8n.pt'' = Some (File ''v1'')"
    "?f ''models/yolov8n.onnx'' = Some (File ''onnx of v1'')"
    by (simp_all add: populated_world_def)
  have more: "?f ''yolov8n.pt'' = Some (File ''v1'')"
    "faults populated_world (Rename ''yolov8n.pt'' ''models/yolov8n.pt'') = None"
    "calls populated_world = []"
    "os_path_exists ''models/yolov8n.onnx'' populated_world"
    by (simp_all add: populated_world_def no_faults_def os_path_exists_def)
  from second_run_skips_conversion [OF pop loader kept, where v = populated_world]
    pop loader more
  show ?thesis by auto
qed

text \<open>
  The statement of C4 as the specification has it, that the second run leaves both
  artifacts unchanged in content, fails when the loader downloads other content than the
  output directory holds: nothing is exported, and \<^verbatim>\<open>models/yolov8n.pt\<close> reads \<open>v2\<close>
  where it read \<open>v1\<close>.
\<close>

theorem second_run_replaces_primary:
  "fs populated_world ''models/yolov8n.pt'' = Some (File ''v1'') \<and>
   fst (download_yolov8n_models (sample_library ''v2'') populated_world) = Inr () \<and>
   calls (snd (download_yolov8n_models (sample_library ''v2'') populated_world))
     = [Load ''yolov8n.pt''] \<and>
   fs (snd (download_yolov8n_models (sample_library ''v2'') populated_world))
     ''models/yolov8n.pt'' = Some (File ''v2'')"
  by (simp add: download_yolov8n_models_def os_makedirs_def populated_world_def no_faults_def
      try_body_def call_YOLO_def sample_library_def move_pt_def os_path_exists_def os_rename_def
      pt_path_def onnx_path_def dirname_def convert_def print_def)




text \<open>
  C6, amended. When \<^verbatim>\<open>os.makedirs\<close> and the loader call of line 13 have returned:
  if nothing named \<^verbatim>\<open>yolov8n.pt\<close> exists in the working directory, lines 17 and 18
  change nothing and \<^verbatim>\<open>download_yolov8n_models\<close> goes on to line 20 in the world that the
  loader left. If something of that name exists, \<^verbatim>\<open>os.rename\<close> is called: where it
  returns, the function goes on in the world that the rename leaves, and for a regular
  file (with \<^verbatim>\<open>models\<close> a directory, no directory at \<^verbatim>\<open>models/yolov8n.pt\<close> and the rename
  not refused) that is the world in which the file has left the working directory and
  stands at \<^verbatim>\<open>models/yolov8n.pt\<close> with its content; where it raises, the exception
  is handled, nothing has moved, and the function returns without any conversion.
\<close>

theorem relocation_follows_download:
  assumes "os_makedirs ''models'' True w = (Inr (), w1)"
      and "call_YOLO L ''yolov8n.pt'' (print ''Downloading YOLOv8n PyTorch model...'' w1)
             = (Inr m, w2)"
  shows "(fs w2 ''yolov8n.pt'' = None \<longrightarrow>
            download_yolov8n_models L w =
              (case after_relocation L w2 of
                 (Inl x, w') \<Rightarrow> (Inr (), handler x w')
               | (Inr u, w') \<Rightarrow> (Inr (), w'))) \<and>
         (fs w2 ''yolov8n.pt'' \<noteq> None \<and>
          os_rename ''yolov8n.pt'' ''models/yolov8n.pt'' w2 = (Inr (), w3) \<longrightarrow>
            download_yolov8n_models L w =
              (case after_relocation L w3 of
                 (Inl x, w') \<Rightarrow> (Inr (), handler x w')
               | (Inr u, w') \<Rightarrow> (Inr (), w'))) \<and>
         (fs w2 ''yolov8n.pt'' = Some (File c) \<and> fs w2 ''models'' = Some Dir \<and>
          fs w2 ''models/yolov8n.pt'' \<noteq> Some Dir \<and>
          faults w2 (Rename ''yolov8n.pt'' ''models/yolov8n.pt'') = None \<longrightarrow>
            download_yolov8n_models L w =
              (case after_relocation L
                      (w2\<lparr>fs := (fs w2)(''yolov8n.pt'' := None,
                                       ''models/yolov8n.pt'' \<mapsto> File c)\<rparr>) of
                 (Inl x, w') \<Rightarrow> (Inr (), handler x w')
               | (Inr u, w') \<Rightarrow> (Inr (), w'))) \<and>
         (fs w2 ''yolov8n.pt'' \<noteq> None \<and>
          os_rename ''yolov8n.pt'' ''models/yolov8n.pt'' w2 = (Inl e, w4) \<longrightarrow>
            download_yolov8n_models L w = (Inr (), handler e w2))"
proof -
  have body: "try_body L w1 = seq (move_pt w2) (\<lambda>_ w. after_relocation L w)"
    using assms(2) by (rule try_body_after_loader)
  have dl: "download_yolov8n_models L w =
      (case seq (move_pt w2) (\<lambda>_ w. after_relocation L w) of
         (Inl x, w') \<Rightarrow> (Inr (), handler x w')
       | (Inr u, w') \<Rightarrow> (Inr (), w'))"
    using download_after_makedirs [OF assms(1), of L] body by simp
  have none: "move_pt w2 = (Inr (), w2)" if "fs w2 ''yolov8n.pt'' = None"
    using that by (rule move_pt_absent)
  have some: "move_pt w2 = os_rename ''yolov8n.pt'' ''models/yolov8n.pt'' w2"
    if "fs w2 ''yolov8n.pt'' \<noteq> None"
    using that by (simp add: move_pt_def os_path_exists_def pt_path_def)
  have regular: "move_pt w2 =
      (Inr (), w2\<lparr>fs := (fs w2)(''yolov8n.pt'' := None, ''models/yolov8n.pt'' \<mapsto> File c)\<rparr>)"
    if "fs w2 ''yolov8n.pt'' = Some (File c)" "fs w2 ''models'' = Some Dir"
      "fs w2 ''models/yolov8n.pt'' \<noteq> Some Dir"
      "faults w2 (Rename ''yolov8n.pt'' ''models/yolov8n.pt'') = None"
    using move_pt_file [of w2 c] that by (simp add: pt_path_def)
  have raised: "w4 = w2" if "os_rename ''yolov8n.pt'' ''models/yolov8n.pt'' w2 = (Inl e, w4)"
    using that by (rule os_rename_raises)
  show ?thesis
    using dl none some regular raised by auto
qed

text \<open>
  The sample run from the fresh working directory: the download \<open>v1\<close> is in the working
  directory after line 13, and the function goes on to line 20 with \<open>v1\<close> relocated.
\<close>

theorem relocation_follows_download_witness:
  "os_makedirs ''models'' True empty_world = (Inr (), created_world) \<and>
   call_YOLO (sample_library ''v1'') ''yolov8n.pt''
     (print ''Downloading YOLOv8n PyTorch model...'' created_world)
     = (Inr ''yolov8n.pt'', loaded_world ''v1'') \<and>
   fs (loaded_world ''v1'') ''yolov8n.pt'' = Some (File ''v1'') \<and>
   fs (loaded_world ''v1'') ''models'' = Some Dir \<and>
   fs (loaded_world ''v1'') ''models/yolov8n.pt'' \<noteq> Some Dir \<and>
   faults (loaded_world ''v1'') (Rename ''yolov8n.pt'' ''models/yolov8n.pt'') = None \<and>
   download_yolov8n_models (sample_library ''v1'') empty_world =
     (case after_relocation (sample_library ''v1'') (relocated_world ''v1'') of
        (Inl x, w') \<Rightarrow> (Inr (), handler x w')
      | (Inr u, w') \<Rightarrow> (Inr (), w')) \<and>
   fs (snd (download_yolov8n_models (sample_library ''v1'') empty_world)) ''yolov8n.pt'' = None \<and>
   fs (snd (download_yolov8n_models (sample_library ''v1'') empty_world)) ''models/yolov8n.pt''
     = Some (File ''v1'')"
proof -
  have st: "fs (loaded_world ''v1'') ''yolov8n.pt'' = Some (File ''v1'')"
    "fs (loaded_world ''v1'') ''models'' = Some Dir"
    "fs (loaded_world ''v1'') ''models/yolov8n.pt'' \<noteq> Some Dir"
    "faults (loaded_world ''v1'') (Rename ''yolov8n.pt'' ''models/yolov8n.pt'') = None"
    by (simp_all add: loaded_world_def no_faults_def)
  have moved: "(loaded_world ''v1'')\<lparr>fs := (fs (loaded_world ''v1''))
                  (''yolov8n.pt'' := None, ''models/yolov8n.pt'' \<mapsto> File ''v1'')\<rparr>
               = relocated_world ''v1''"
    by (simp add: loaded_world_def relocated_world_def)
  have final: "fs (snd (download_yolov8n_models (sample_library ''v1'') empty_world))
                 = fs (snd (main (sample_library ''v1'') empty_world))"
    by (simp add: main_fs)
  have steps: "os_makedirs ''models'' True empty_world = (Inr (), created_world)"
    "call_YOLO (sample_library ''v1'') ''yolov8n.pt''
       (print ''Downloading YOLOv8n PyTorch model...'' created_world)
       = (Inr ''yolov8n.pt'', loaded_world ''v1'')"
    by (rule sample_run_steps)+
  from relocation_follows_download [OF steps, where c = "''v1''"]
    st moved steps final fresh_sample_run
  show ?thesis by simp
qed

text \<open>
  The statement of C6 as the specification has it, that the file is moved whenever it
  exists in the working directory, fails where the operating system denies the rename:
  after line 13 the download is in the working directory, the function returns, and
  the download is still there, with nothing at \<^verbatim>\<open>models/yolov8n.pt\<close>.
\<close>

theorem downloaded_file_not_relocated:
  "fs (snd (call_YOLO (sample_library ''v1'') ''yolov8n.pt''
              (print ''Downloading YOLOv8n PyTorch model...''
                 (snd (os_makedirs ''models'' True denied_relocation_world)))))
     ''yolov8n.pt'' = Some (File ''v1'') \<and>
   fst (download_yolov8n_models (sample_library ''v1'') denied_relocation_world) = Inr () \<and>
   fs (snd (download_yolov8n_models (sample_library ''v1'') denied_relocation_world))
     ''yolov8n.pt'' = Some (File ''v1'') \<and>
   fs (snd (download_yolov8n_models (sample_library ''v1'') denied_relocation_world))
     ''models/yolov8n.pt'' = None"
  by (simp add: download_yolov8n_models_def os_makedirs_def denied_relocation_world_def
      try_body_def call_YOLO_def sample_library_def move_pt_def os_path_exists_def os_rename_def
      pt_path_def dirname_def print_def handler_def)



text \<open>
  C8, amended. In every run in which \<^verbatim>\<open>os.makedirs\<close> does not raise, whatever the
  library does: \<^verbatim>\<open>download_yolov8n_models\<close> returns, \<^verbatim>\<open>verify_downloads\<close> runs on the
  world it leaves, one of the two summary lines is printed, chosen by the result of the
  verification, and the exit status is 0.
\<close>

theorem entry_point_always_verifies:
  assumes "os_makedirs ''models'' True w = (Inr (), w1)"
  shows "\<exists>wa ok wv.
           download_yolov8n_models L w = (Inr (), wa) \<and>
           verify_downloads wa = (ok, wv) \<and>
           main L w =
             (Inr (),
              print (if ok then ''All model files downloaded successfully!''
                     else ''Some model files failed to download. Please check errors above.'')
                wv) \<and>
           exit_status (main L w) = 0"
proof -
  obtain r w2 where body: "try_body L w1 = (r, w2)"
    by (cases "try_body L w1")
  obtain wa where acq: "download_yolov8n_models L w = (Inr (), wa)"
    using assms body by (cases r) (simp_all add: download_yolov8n_models_def)
  obtain ok wv where ver: "verify_downloads wa = (ok, wv)"
    by (cases "verify_downloads wa")
  from acq ver show ?thesis
    by (auto simp: main_def)
qed

text \<open>The run that succeeds, from a fresh working directory.\<close>

theorem entry_point_always_verifies_witness:
  "os_makedirs ''models'' True empty_world
     = (Inr (), empty_world\<lparr>fs := [''models'' \<mapsto> Dir]\<rparr>) \<and>
   exit_status (main (sample_library ''v1'') empty_world) = 0 \<and>
   console (snd (main (sample_library ''v1'') empty_world)) =
     [''Downloading YOLOv8n PyTorch model...'', ''Converting to ONNX format...'',
      ''Download complete!'', ''PyTorch model saved to: models/yolov8n.pt'',
      ''ONNX model saved to: models/yolov8n.onnx'',
      ''PyTorch model: Found at models/yolov8n.pt'',
      ''ONNX model: Found at models/yolov8n.onnx'',
      ''All model files downloaded successfully!'']"
proof -
  have mk: "os_makedirs ''models'' True empty_world
      = (Inr (), empty_world\<lparr>fs := [''models'' \<mapsto> Dir]\<rparr>)"
    by (simp add: os_makedirs_def empty_world_def no_faults_def)
  from entry_point_always_verifies [OF mk, of "sample_library ''v1''"] mk fresh_sample_run
  show ?thesis by auto
qed

text \<open>
  The statement of C8 as the specification has it, for every run, fails where \<^verbatim>\<open>models\<close>
  is a regular file: the exception of \<^verbatim>\<open>os.makedirs\<close> ends the script with status 1,
  before any verification and without a summary line.
\<close>

theorem entry_point_exits_with_error:
  "exit_status (main (sample_library ''v1'') blocked_world) = 1 \<and>
   console (snd (main (sample_library ''v1'') blocked_world)) = []"
  by (simp add: main_def download_yolov8n_models_def os_makedirs_def blocked_world_def)

text \<open>
  C9, amended. A run that starts with nothing in the output directory, with a loader and
  a converter that succeed and write their outputs into the working directory, and with
  an operating system that permits the creation of the directory and the two renames:
  \<^verbatim>\<open>download_yolov8n_models\<close> returns, and afterwards \<^verbatim>\<open>models/yolov8n.pt\<close> and
  \<^verbatim>\<open>models/yolov8n.onnx\<close> are regular files that are not empty.
\<close>

theorem fresh_run_produces_both_artifacts:
  assumes lib: "delivers L"
      and empty: "fs w ''models'' = None \<or> fs w ''models'' = Some Dir"
                 "fs w ''models/yolov8n.pt'' = None" "fs w ''models/yolov8n.onnx'' = None"
      and permitted: "faults w (Mkdir ''models'') = None"
                     "faults w (Rename ''yolov8n.pt'' ''models/yolov8n.pt'') = None"
                     "faults w (Rename ''yolov8n.onnx'' ''models/yolov8n.onnx'') = None"
  shows "\<exists>w' c1 c2.
           download_yolov8n_models L w = (Inr (), w') \<and>
           fs w' ''models/yolov8n.pt'' = Some (File c1) \<and> c1 \<noteq> [] \<and>
           fs w' ''models/yolov8n.onnx'' = Some (File c2) \<and> c2 \<noteq> []"
proof -
  define w1 where "w1 = w\<lparr>fs := (fs w)(''models'' \<mapsto> Dir)\<rparr>"
  have mk: "os_makedirs ''models'' True w = (Inr (), w1)"
    unfolding w1_def using empty(1) permitted(1) by (rule os_makedirs_creates)
  let ?w1' = "print ''Downloading YOLOv8n PyTorch model...'' w1"
  from lib obtain m c1 where
    ld: "YOLO L ''yolov8n.pt'' (fs w1) = (Inr m, (fs w1)(''yolov8n.pt'' \<mapsto> File c1))"
    and c1: "c1 \<noteq> []"
    unfolding delivers_def by blast
  define w2 where
    "w2 = ?w1'\<lparr>calls := calls w1 @ [Load ''yolov8n.pt''],
               fs := (fs w1)(''yolov8n.pt'' \<mapsto> File c1)\<rparr>"
  have s2: "call_YOLO L ''yolov8n.pt'' ?w1' = (Inr m, w2)"
    using ld by (simp add: call_YOLO_def w2_def)
  define w3 where "w3 = w2\<lparr>fs := (fs w2)(''yolov8n.pt'' := None, pt_path \<mapsto> File c1)\<rparr>"
  have s3: "move_pt w2 = (Inr (), w3)"
    unfolding w3_def using empty permitted
    by (intro move_pt_file) (simp_all add: w2_def w1_def pt_path_def)
  let ?w3' = "print ''Converting to ONNX format...'' w3"
  have no_onnx: "\<not> os_path_exists onnx_path ?w3'"
    using empty by (simp add: os_path_exists_def w3_def w2_def w1_def pt_path_def onnx_path_def)
  from lib obtain m2 where rl: "YOLO L ''models/yolov8n.pt'' (fs w3) = (Inr m2, fs w3)"
    unfolding delivers_def by blast
  define w4 where "w4 = ?w3'\<lparr>calls := calls w3 @ [Load pt_path]\<rparr>"
  have s4: "call_YOLO L pt_path ?w3' = (Inr m2, w4)"
    using rl by (simp add: call_YOLO_def w4_def pt_path_def)
  from lib obtain r c2 where
    ex: "export L m2 ''onnx'' [640, 640] (fs w4)
           = (Inr r, (fs w4)(''yolov8n.onnx'' \<mapsto> File c2))"
    and c2: "c2 \<noteq> []"
    unfolding delivers_def by blast
  define w5 where
    "w5 = w4\<lparr>calls := calls w4 @ [Export m2 ''onnx'' [640, 640]],
             fs := (fs w4)(''yolov8n.onnx'' \<mapsto> File c2)\<rparr>"
  have s5: "call_export L m2 ''onnx'' [640, 640] w4 = (Inr r, w5)"
    using ex by (simp add: call_export_def w5_def)
  define w6 where "w6 = w5\<lparr>fs := (fs w5)(''yolov8n.onnx'' := None, onnx_path \<mapsto> File c2)\<rparr>"
  have s6: "os_rename ''yolov8n.onnx'' onnx_path w5 = (Inr (), w6)"
    unfolding w6_def using empty permitted
    by (intro os_rename_file)
       (simp_all add: w5_def w4_def w3_def w2_def w1_def pt_path_def onnx_path_def dirname_def)
  have ex5: "os_path_exists ''yolov8n.onnx'' w5"
    by (simp add: os_path_exists_def w5_def)
  have conv: "convert L ?w3' = (Inr (), w6)"
    using no_onnx s4 s5 s6 ex5 by (simp add: convert_def)
  have body: "try_body L w1 = (Inr (),
      print (''ONNX model saved to: '' @ onnx_path)
        (print (''PyTorch model saved to: '' @ pt_path) (print ''Download complete!'' w6)))"
    using s2 s3 conv by (simp add: try_body_def)
  have "fs w6 ''models/yolov8n.pt'' = Some (File c1)"
    "fs w6 ''models/yolov8n.onnx'' = Some (File c2)"
    by (simp_all add: w6_def w5_def w4_def w3_def pt_path_def onnx_path_def)
  with mk body c1 c2 show ?thesis
    by (simp add: download_yolov8n_models_def)
qed

text \<open>The fresh working directory and the library that downloads \<open>v1\<close>.\<close>

theorem fresh_run_produces_both_artifacts_witness:
  "delivers (sample_library ''v1'') \<and>
   (fs empty_world ''models'' = None \<or> fs empty_world ''models'' = Some Dir) \<and>
   fs empty_world ''models/yolov8n.pt'' = None \<and>
   fs empty_world ''models/yolov8n.onnx'' = None \<and>
   faults empty_world (Mkdir ''models'') = None \<and>
   faults empty_world (Rename ''yolov8n.pt'' ''models/yolov8n.pt'') = None \<and>
   faults empty_world (Rename ''yolov8n.onnx'' ''models/yolov8n.onnx'') = None \<and>
   (\<exists>w' c1 c2.
      download_yolov8n_models (sample_library ''v1'') empty_world = (Inr (), w') \<and>
      fs w' ''models/yolov8n.pt'' = Some (File c1) \<and> c1 \<noteq> [] \<and>
      fs w' ''models/yolov8n.onnx'' = Some (File c2) \<and> c2 \<noteq> [])"
proof -
  have lib: "delivers (sample_library ''v1'')"
    by (simp add: sample_library_delivers)
  have empty: "fs empty_world ''models'' = None \<or> fs empty_world ''models'' = Some Dir"
    "fs empty_world ''models/yolov8n.pt'' = None" "fs empty_world ''models/yolov8n.onnx'' = None"
    by (simp_all add: empty_world_def)
  have permitted: "faults empty_world (Mkdir ''models'') = None"
    "faults empty_world (Rename ''yolov8n.pt'' ''models/yolov8n.pt'') = None"
    "faults empty_world (Rename ''yolov8n.onnx'' ''models/yolov8n.onnx'') = None"
    by (simp_all add: empty_world_def no_faults_def)
  from fresh_run_produces_both_artifacts [OF lib empty permitted] lib empty permitted
  show ?thesis by blast
qed

text \<open>
  The statement of C9 as the specification has it, without the condition on the
  operating system, fails where the move of the converted file is denied: the loader and
  the converter succeed and write into the working directory, the output directory
  starts empty, the function returns, and \<^verbatim>\<open>models/yolov8n.onnx\<close> does not exist.
\<close>

theorem fresh_run_with_denied_move:
  "delivers (sample_library ''v1'') \<and>
   fs denied_onnx_move_world ''models'' = None \<and>
   fs denied_onnx_move_world ''models/yolov8n.pt'' = None \<and>
   fs denied_onnx_move_world ''models/yolov8n.onnx'' = None \<and>
   fst (download_yolov8n_models (sample_library ''v1'') denied_onnx_move_world) = Inr () \<and>
   fs (snd (download_yolov8n_models (sample_library ''v1'') denied_onnx_move_world))
     ''models/yolov8n.pt'' = Some (File ''v1'') \<and>
   fs (snd (download_yolov8n_models (sample_library ''v1'') denied_onnx_move_world))
     ''models/yolov8n.onnx'' = None"
proof -
  have "delivers (sample_library ''v1'')"
    by (simp add: sample_library_delivers)
  then show ?thesis
    by (simp add: download_yolov8n_models_def os_makedirs_def denied_onnx_move_world_def
        try_body_def call_YOLO_def sample_library_def move_pt_def os_path_exists_def
        os_rename_def pt_path_def onnx_path_def dirname_def convert_def call_export_def
        print_def handler_def)
qed

text \<open>
  C10. Nothing is rolled back when an exception is caught. If the statements inside
  \<^verbatim>\<open>try\<close> end with an exception in a world where \<^verbatim>\<open>models/yolov8n.pt\<close> exists and
  \<^verbatim>\<open>models/yolov8n.onnx\<close> does not, \<^verbatim>\<open>download_yolov8n_models\<close> returns with that file
  system, and \<^verbatim>\<open>verify_downloads\<close> then prints "Found" for the first, "Missing" for the
  second, and returns false.
\<close>

theorem caught_failure_leaves_partial_state:
  assumes "os_makedirs ''models'' True w = (Inr (), w1)"
      and "try_body L w1 = (Inl e, w2)"
      and "fs w2 ''models/yolov8n.pt'' = Some n"
      and "fs w2 ''models/yolov8n.onnx'' = None"
  shows "\<exists>w'. download_yolov8n_models L w = (Inr (), w') \<and>
              fs w' = fs w2 \<and>
              verify_downloads w' =
                (False,
                 w'\<lparr>console := console w' @
                      [''PyTorch model: Found at models/yolov8n.pt'',
                       ''ONNX model: Missing at models/yolov8n.onnx'']\<rparr>)"
proof -
  have "download_yolov8n_models L w = (Inr (), handler e w2)"
    using assms(1,2) by (simp add: download_yolov8n_models_def)
  moreover have "verify_downloads (handler e w2) =
      (False,
       (handler e w2)\<lparr>console := console (handler e w2) @
          [''PyTorch model: Found at models/yolov8n.pt'',
           ''ONNX model: Missing at models/yolov8n.onnx'']\<rparr>)"
    using assms(3,4)
    by (simp add: verify_downloads_unfold os_path_exists_def pt_path_def onnx_path_def print_def)
  ultimately show ?thesis by simp
qed

text \<open>
  Such a run exists: from a fresh working directory, the download is relocated, then
  the converter raises at line 25.
\<close>

theorem caught_failure_leaves_partial_state_witness:
  "os_makedirs ''models'' True empty_world
     = (Inr (), empty_world\<lparr>fs := [''models'' \<mapsto> Dir]\<rparr>) \<and>
   try_body (failing_converter ''v1'') (empty_world\<lparr>fs := [''models'' \<mapsto> Dir]\<rparr>)
     = (Inl (Error ''Unsupported opset''),
        empty_world\<lparr>fs := [''models'' \<mapsto> Dir, ''models/yolov8n.pt'' \<mapsto> File ''v1''],
          console := [''Downloading YOLOv8n PyTorch model...'', ''Converting to ONNX format...''],
          calls := [Load ''yolov8n.pt'', Load ''models/yolov8n.pt'',
                    Export ''models/yolov8n.pt'' ''onnx'' [640, 640]]\<rparr>) \<and>
   (\<exists>w'. download_yolov8n_models (failing_converter ''v1'') empty_world = (Inr (), w') \<and>
      fs w' = [''models'' \<mapsto> Dir, ''models/yolov8n.pt'' \<mapsto> File ''v1''] \<and>
      verify_downloads w' =
        (False,
         w'\<lparr>console := console w' @
              [''PyTorch model: Found at models/yolov8n.pt'',
               ''ONNX model: Missing at models/yolov8n.onnx'']\<rparr>))"
proof -
  let ?w1 = "empty_world\<lparr>fs := [''models'' \<mapsto> Dir]\<rparr>"
  let ?w2 = "empty_world\<lparr>fs := [''models'' \<mapsto> Dir, ''models/yolov8n.pt'' \<mapsto> File ''v1''],
          console := [''Downloading YOLOv8n PyTorch model...'', ''Converting to ONNX format...''],
          calls := [Load ''yolov8n.pt'', Load ''models/yolov8n.pt'',
                    Export ''models/yolov8n.pt'' ''onnx'' [640, 640]]\<rparr>"
  have mk: "os_makedirs ''models'' True empty_world = (Inr (), ?w1)"
    by (simp add: os_makedirs_def empty_world_def no_faults_def)
  have body: "try_body (failing_converter ''v1'') ?w1 = (Inl (Error ''Unsupported opset''), ?w2)"
    by (simp add: try_body_def call_YOLO_def failing_converter_def empty_world_def no_faults_def
        move_pt_def os_path_exists_def os_rename_def pt_path_def onnx_path_def dirname_def
        convert_def call_export_def print_def)
  have st: "fs ?w2 ''models/yolov8n.pt'' = Some (File ''v1'')"
    "fs ?w2 ''models/yolov8n.onnx'' = None"
    by simp_all
  from caught_failure_leaves_partial_state [OF mk body st] mk body show ?thesis
    by simp
qed

end
